theory Spec2Isabelle
  imports Complex_Main "HOL-Library.AList"
begin

section \<open>Values\<close>

text \<open>
  The backend (\<^verbatim>\<open>src/backend/app.py\<close>) is a FastAPI application: a handful of mock
  handlers behind one HTTP middleware, \<^verbatim>\<open>observability_middleware\<close>, that records
  metrics, log records and a span for every request. The model below follows that file.

  Python values that the handlers return or log are JSON-shaped. A \<^verbatim>\<open>dict\<close> literal is
  an association list in insertion order. Python floats (\<^verbatim>\<open>time.time()\<close>, durations)
  are modelled as reals: the model says which expression is recorded, not how it rounds.
\<close>

datatype json =
    JNull
  | JInt int
  | JFloat real
  | JStr string
  | JObj "(string \<times> json) list"
  | JArr "json list"

text \<open>\<^verbatim>\<open>str(n)\<close> and \<^verbatim>\<open>f"{n}"\<close> for a Python int: decimal digits, a minus sign when negative.\<close>

definition digit_char :: "nat \<Rightarrow> char" where
  "digit_char d = ''0123456789'' ! d"

fun str_nat :: "nat \<Rightarrow> string" where
  "str_nat n = (if n < 10 then [digit_char n] else str_nat (n div 10) @ [digit_char (n mod 10)])"

declare str_nat.simps [simp del]

definition str_int :: "int \<Rightarrow> string" where
  "str_int i = (if i < 0 then CHR ''-'' # str_nat (nat (- i)) else str_nat (nat i))"

text \<open>\<^verbatim>\<open>d.get(k)\<close> on a dict of JSON values: \<^verbatim>\<open>None\<close> when the key is absent.\<close>

definition dict_get :: "(string \<times> json) list \<Rightarrow> string \<Rightarrow> json" where
  "dict_get d k = (case map_of d k of None \<Rightarrow> JNull | Some v \<Rightarrow> v)"

text \<open>\<^verbatim>\<open>d.get(k, default)\<close>.\<close>

definition dict_get_default :: "(string \<times> 'v) list \<Rightarrow> string \<Rightarrow> 'v \<Rightarrow> 'v" where
  "dict_get_default d k dflt = (case map_of d k of None \<Rightarrow> dflt | Some v \<Rightarrow> v)"

section \<open>Requests, responses, exceptions\<close>

text \<open>
  What the middleware reads of a \<^verbatim>\<open>Request\<close>; \<open>http_method\<close> is
  \<^verbatim>\<open>request.method\<close>. Header names are lower-case, as the
  transport delivers them; looking a name up gives its first value.
\<close>

record request =
  http_method :: string
  url_str :: string
  url_scheme :: string
  url_hostname :: "string option"
  url_path :: string
  headers :: "(string \<times> string) list"
  client_host :: "string option"

record 'b response =
  status_code :: int
  resp_headers :: "(string \<times> string) list"
  body :: 'b

text \<open>
  A raised object: \<^verbatim>\<open>type(e).__name__\<close>, \<^verbatim>\<open>str(e)\<close>, and whether it is an instance
  of \<^verbatim>\<open>Exception\<close>. The last decides whether \<^verbatim>\<open>except Exception\<close> catches it:
  \<^verbatim>\<open>asyncio.CancelledError\<close>, \<^verbatim>\<open>KeyboardInterrupt\<close> and \<^verbatim>\<open>SystemExit\<close> derive from
  \<^verbatim>\<open>BaseException\<close> only.
\<close>

record py_exception =
  type_name :: string
  str_of :: string
  is_Exception :: bool

text \<open>How \<^verbatim>\<open>await call_next(request)\<close>, and the middleware itself, can complete.\<close>

datatype 'b outcome = Returned "'b response" | Raised py_exception

section \<open>Telemetry state\<close>

text \<open>An attribute value as the code passes it; \<open>AJson\<close> is a value of type \<^verbatim>\<open>Any\<close>.\<close>

datatype attr_value = ANone | AStr string | AInt int | AFloat real | AJson json

datatype status = Unset | StatusOK | StatusERROR string

text \<open>
  A span: its name, the \<^verbatim>\<open>context=\<close> it was started with (\<open>None\<close> when the argument is
  not given and the current context is used), its attributes, status and recorded
  exceptions. The type \<open>'c\<close> is the propagation library's context.
\<close>

record 'c span =
  span_name :: string
  span_context :: "'c option"
  attributes :: "(string \<times> attr_value) list"
  span_status :: status
  recorded_exceptions :: "py_exception list"

datatype level = INFO | WARNING | ERROR

text \<open>A log message as the f-string builds it: \<open>Fixed3 x\<close> is \<^verbatim>\<open>{x:.3f}\<close>,
  \<open>Value v\<close> is \<^verbatim>\<open>{v}\<close> for a value of type \<^verbatim>\<open>Any\<close>.\<close>

datatype fpart = Lit string | Fixed3 real | Value json

record log_record =
  levelname :: level
  message :: "fpart list"
  extra :: "(string \<times> json) list"
  exc_info :: "py_exception option"

text \<open>
  The process-wide state the middleware and the handlers act on: the clock read by
  \<^verbatim>\<open>time.time()\<close>, the four registry instruments (\<^verbatim>\<open>REQUEST_COUNT\<close>,
  \<^verbatim>\<open>REQUEST_DURATION\<close>, \<^verbatim>\<open>ACTIVE_REQUESTS\<close>, \<^verbatim>\<open>ERROR_COUNT\<close>), the two
  instruments of the metrics provider, the emitted log records, and the spans that have
  ended. A labelled counter is a function from the label values, as the code passes
  them, to the count; a histogram keeps the values observed.
\<close>

record 'c telemetry =
  now :: real
  REQUEST_COUNT :: "string \<times> string \<times> int \<Rightarrow> nat"
  REQUEST_DURATION :: "string \<times> string \<Rightarrow> real list"
  ACTIVE_REQUESTS :: int
  ERROR_COUNT :: "string \<times> string \<times> string \<Rightarrow> nat"
  otel_request_counter :: "(string \<times> string) list \<Rightarrow> int"
  otel_request_duration :: "(string \<times> string) list \<Rightarrow> real list"
  log_records :: "log_record list"
  ended_spans :: "'c span list"

definition start_span :: "string \<Rightarrow> 'c option \<Rightarrow> 'c span" where
  "start_span name ctx =
     \<lparr>span_name = name, span_context = ctx, attributes = [], span_status = Unset,
      recorded_exceptions = []\<rparr>"

definition set_attribute :: "string \<Rightarrow> attr_value \<Rightarrow> 'c span \<Rightarrow> 'c span" where
  "set_attribute k v sp = sp\<lparr>attributes := AList.update k v (attributes sp)\<rparr>"

definition set_status :: "status \<Rightarrow> 'c span \<Rightarrow> 'c span" where
  "set_status s sp = sp\<lparr>span_status := s\<rparr>"

definition record_exception :: "py_exception \<Rightarrow> 'c span \<Rightarrow> 'c span" where
  "record_exception e sp = sp\<lparr>recorded_exceptions := recorded_exceptions sp @ [e]\<rparr>"

definition end_span :: "'c span \<Rightarrow> 'c telemetry \<Rightarrow> 'c telemetry" where
  "end_span sp st = st\<lparr>ended_spans := ended_spans st @ [sp]\<rparr>"

definition emit :: "level \<Rightarrow> fpart list \<Rightarrow> (string \<times> json) list \<Rightarrow> py_exception option \<Rightarrow>
    'c telemetry \<Rightarrow> 'c telemetry" where
  "emit lv msg ex ei st =
     st\<lparr>log_records := log_records st @
           [\<lparr>levelname = lv, message = msg, extra = ex, exc_info = ei\<rparr>]\<rparr>"

text \<open>\<^verbatim>\<open>Counter.labels(...).inc()\<close>, \<^verbatim>\<open>Histogram.labels(...).observe(v)\<close>,
  \<^verbatim>\<open>counter.add(n, attrs)\<close> and \<^verbatim>\<open>histogram.record(v, attrs)\<close>.\<close>

definition labels_inc :: "('k \<Rightarrow> nat) \<Rightarrow> 'k \<Rightarrow> ('k \<Rightarrow> nat)" where
  "labels_inc c k = c(k := c k + 1)"

definition labels_observe :: "('k \<Rightarrow> real list) \<Rightarrow> 'k \<Rightarrow> real \<Rightarrow> ('k \<Rightarrow> real list)" where
  "labels_observe h k v = h(k := h k @ [v])"

definition counter_add :: "('k \<Rightarrow> int) \<Rightarrow> int \<Rightarrow> 'k \<Rightarrow> ('k \<Rightarrow> int)" where
  "counter_add c n k = c(k := c k + n)"

definition histogram_record :: "('k \<Rightarrow> real list) \<Rightarrow> real \<Rightarrow> 'k \<Rightarrow> ('k \<Rightarrow> real list)" where
  "histogram_record h v k = h(k := h k @ [v])"

definition json_opt :: "string option \<Rightarrow> json" where
  "json_opt s = (case s of None \<Rightarrow> JNull | Some x \<Rightarrow> JStr x)"

definition attr_opt :: "string option \<Rightarrow> attr_value" where
  "attr_opt s = (case s of None \<Rightarrow> ANone | Some x \<Rightarrow> AStr x)"

section \<open>The observability middleware\<close>

text \<open>
  \<^verbatim>\<open>observability_middleware\<close>, lines 177 to 291, in four parts: entry, the two ways
  the \<^verbatim>\<open>try\<close> block completes, and exit.

  Entry (lines 178 to 208): the trace context is extracted from the header dict, the span
  is started with it, the gauge is incremented, the request attributes are set and
  "Request started" is logged. \<open>extract\<close> is the propagation library's function and is a
  parameter of the model.
\<close>

definition request_entry ::
  "((string \<rightharpoonup> string) \<Rightarrow> 'c) \<Rightarrow> request \<Rightarrow> 'c telemetry \<Rightarrow> 'c span \<times> 'c telemetry" where
  "request_entry extract request st =
     (let carrier = map_of (headers request);
          ctx = extract carrier;
          sp = start_span (http_method request @ '' '' @ url_path request) (Some ctx);
          st = st\<lparr>ACTIVE_REQUESTS := ACTIVE_REQUESTS st + 1\<rparr>;
          sp = set_attribute ''http.method'' (AStr (http_method request)) sp;
          sp = set_attribute ''http.url'' (AStr (url_str request)) sp;
          sp = set_attribute ''http.scheme'' (AStr (url_scheme request)) sp;
          sp = set_attribute ''http.host'' (attr_opt (url_hostname request)) sp;
          sp = set_attribute ''http.target'' (AStr (url_path request)) sp;
          sp = set_attribute ''user_agent.original''
                   (AStr (dict_get_default (headers request) ''user-agent'' '''')) sp;
          st = emit INFO
                 [Lit ''Request started: '', Lit (http_method request), Lit '' '',
                  Lit (url_path request)]
                 [(''method'', JStr (http_method request)),
                  (''path'', JStr (url_path request)),
                  (''user_agent'', JStr (dict_get_default (headers request) ''user-agent'' '''')),
                  (''client_ip'', json_opt (client_host request))]
                 None st
      in (sp, st))"

text \<open>
  The body of the \<^verbatim>\<open>try\<close> after \<^verbatim>\<open>call_next\<close> has returned (lines 214 to 262): the
  duration is taken from the clock, the response attributes are set, the two registry
  instruments and the two provider instruments are updated, "Request completed" is
  logged, the span status is set, and the response is returned.
\<close>

definition on_response ::
  "request \<Rightarrow> real \<Rightarrow> 'b response \<Rightarrow> 'c span \<Rightarrow> 'c telemetry \<Rightarrow>
     'b outcome \<times> 'c span \<times> 'c telemetry" where
  "on_response request start_time response sp st =
     (let duration = now st - start_time;
          sp = set_attribute ''http.status_code'' (AInt (status_code response)) sp;
          sp = set_attribute ''http.response.duration_ms'' (AFloat (duration * 1000)) sp;
          st = st\<lparr>REQUEST_COUNT := labels_inc (REQUEST_COUNT st)
                  (http_method request, url_path request, status_code response)\<rparr>;
          st = st\<lparr>REQUEST_DURATION := labels_observe (REQUEST_DURATION st)
                  (http_method request, url_path request) duration\<rparr>;
          st = st\<lparr>otel_request_counter := counter_add (otel_request_counter st) 1
                  [(''method'', http_method request),
                   (''endpoint'', url_path request),
                   (''status_code'', str_int (status_code response))]\<rparr>;
          st = st\<lparr>otel_request_duration := histogram_record (otel_request_duration st)
                  (duration * 1000)
                  [(''method'', http_method request),
                   (''endpoint'', url_path request)]\<rparr>;
          st = emit INFO
                 [Lit ''Request completed: '', Lit (http_method request), Lit '' '',
                  Lit (url_path request), Lit '' - '', Lit (str_int (status_code response)),
                  Lit '' ('', Fixed3 duration, Lit ''s)'']
                 [(''method'', JStr (http_method request)),
                  (''path'', JStr (url_path request)),
                  (''status_code'', JInt (status_code response)),
                  (''duration_ms'', JFloat (duration * 1000))]
                 None st;
          sp = (if status_code response \<ge> 400
                  then set_status (StatusERROR (''HTTP '' @ str_int (status_code response))) sp
                  else set_status StatusOK sp)
      in (Returned response, sp, st))"

text \<open>
  The \<^verbatim>\<open>except Exception as e\<close> block (lines 264 to 288): the error counter is
  incremented, the span gets the error status and the exception, the failure is logged,
  and the exception is raised again.
\<close>

definition on_exception ::
  "request \<Rightarrow> py_exception \<Rightarrow> 'c span \<Rightarrow> 'c telemetry \<Rightarrow> 'b outcome \<times> 'c span \<times> 'c telemetry" where
  "on_exception request e sp st =
     (let st = st\<lparr>ERROR_COUNT := labels_inc (ERROR_COUNT st)
                  (http_method request, url_path request, type_name e)\<rparr>;
          sp = set_status (StatusERROR (str_of e)) sp;
          sp = record_exception e sp;
          st = emit ERROR
                 [Lit ''Request failed: '', Lit (http_method request), Lit '' '',
                  Lit (url_path request), Lit '' - '', Lit (str_of e)]
                 [(''method'', JStr (http_method request)),
                  (''path'', JStr (url_path request)),
                  (''error'', JStr (str_of e)),
                  (''error_type'', JStr (type_name e))]
                 (Some e) st
      in (Raised e, sp, st))"

text \<open>
  The whole function. \<open>call_next\<close> is the rest of the application: it runs on the state
  the entry left and gives back how it completed and the state it left (it may log, end
  spans of its own and let time pass). A raised object that is not an instance of
  \<^verbatim>\<open>Exception\<close> passes the \<^verbatim>\<open>except\<close> clause untouched. The \<^verbatim>\<open>finally\<close> block
  (line 291) decrements the gauge on every path, and leaving the \<^verbatim>\<open>with\<close> block ends
  the span: the two make up \<open>request_exit\<close>. What the tracing library itself writes on
  the span when an exception leaves the \<^verbatim>\<open>with\<close> block is not code of the
  repository and is not modelled.
\<close>

definition request_exit :: "'c span \<Rightarrow> 'c telemetry \<Rightarrow> 'c telemetry" where
  "request_exit sp st =
     (let st = st\<lparr>ACTIVE_REQUESTS := ACTIVE_REQUESTS st - 1\<rparr>;
          st = end_span sp st
      in st)"

definition observability_middleware ::
  "((string \<rightharpoonup> string) \<Rightarrow> 'c) \<Rightarrow> request \<Rightarrow>
     (request \<Rightarrow> 'c telemetry \<Rightarrow> 'b outcome \<times> 'c telemetry) \<Rightarrow>
     'c telemetry \<Rightarrow> 'b outcome \<times> 'c telemetry" where
  "observability_middleware extract request call_next st =
     (let start_time = now st;
          (sp, st) = request_entry extract request st;
          (completion, st) = call_next request st;
          (result, sp, st) =
             (case completion of
                Returned response \<Rightarrow> on_response request start_time response sp st
              | Raised e \<Rightarrow>
                  if is_Exception e then on_exception request e sp st
                  else (Raised e, sp, st));
          st = request_exit sp st
      in (result, st))"

section \<open>The mock handlers\<close>

text \<open>
  A handler returns a dict or raises \<^verbatim>\<open>HTTPException(status_code, detail)\<close>.
  \<^verbatim>\<open>simulate_work\<close> draws a duration with \<^verbatim>\<open>random.uniform\<close> and sleeps that
  long: the drawn value is an argument of the model, and sleeping advances the clock.
\<close>

datatype handler_result = Return json | RaiseHTTPException int string

definition simulate_work :: "real \<Rightarrow> real \<Rightarrow> real \<Rightarrow> 'c telemetry \<Rightarrow> 'c telemetry" where
  "simulate_work min_duration max_duration duration st = st\<lparr>now := now st + duration\<rparr>"

text \<open>\<^verbatim>\<open>get_user\<close>, lines 330 to 351.\<close>

definition get_user :: "int \<Rightarrow> real \<Rightarrow> 'c telemetry \<Rightarrow> handler_result \<times> 'c telemetry" where
  "get_user user_id slept st =
     (let sp = start_span ''get_user'' None;
          sp = set_attribute ''user.id'' (AInt user_id) sp;
          sp = set_attribute ''operation'' (AStr ''get_user'') sp;
          st = simulate_work (5 / 100) (15 / 100) slept st
      in if user_id > 10 then
           (let st = emit WARNING [Lit ''User not found: '', Lit (str_int user_id)] [] None st;
                sp = set_attribute ''error'' (AStr ''user_not_found'') sp
            in (RaiseHTTPException 404 ''User not found'', end_span sp st))
         else
           (let user = JObj [(''id'', JInt user_id),
                             (''name'', JStr (''User '' @ str_int user_id)),
                             (''email'', JStr (''user'' @ str_int user_id @ ''@example.com''))];
                st = emit INFO [Lit ''Retrieved user '', Lit (str_int user_id)] [] None st
            in (Return user, end_span sp st)))"

text \<open>\<^verbatim>\<open>create_user\<close>, lines 353 to 370. \<open>user_data\<close> is the request body, a dict.\<close>

definition create_user ::
  "(string \<times> json) list \<Rightarrow> real \<Rightarrow> 'c telemetry \<Rightarrow> handler_result \<times> 'c telemetry" where
  "create_user user_data slept st =
     (let sp = start_span ''create_user'' None;
          sp = set_attribute ''operation'' (AStr ''create_user'') sp;
          sp = set_attribute ''user.name''
                 (AJson (dict_get_default user_data ''name'' (JStr []))) sp;
          st = simulate_work (2 / 10) (5 / 10) slept st;
          new_user = [(''id'', JInt 100),
                      (''name'', dict_get user_data ''name''),
                      (''email'', dict_get user_data ''email''),
                      (''created_at'', JFloat (now st))];
          st = emit INFO [Lit ''Created user: '', Value (dict_get new_user ''name'')] [] None st
      in (Return (JObj new_user), end_span sp st))"

text \<open>\<^verbatim>\<open>error_endpoint\<close>, lines 383 to 389.\<close>

definition error_endpoint :: "'c telemetry \<Rightarrow> handler_result \<times> 'c telemetry" where
  "error_endpoint st =
     (let sp = start_span ''error_operation'' None;
          sp = set_attribute ''operation'' (AStr ''intentional_error'') sp;
          st = emit ERROR [Lit ''Intentional error triggered''] [] None st
      in (RaiseHTTPException 500 ''Intentional server error for testing'', end_span sp st))"

section \<open>The framework between the middleware and a handler\<close>

text \<open>
  What \<^verbatim>\<open>call_next\<close> does for a route of this application is the framework's work, not
  code of the repository: it calls the handler, serialises a returned dict as a JSON
  response with status 200, and turns a raised \<^verbatim>\<open>HTTPException\<close> into a response with
  that status code and the body \<^verbatim>\<open>{"detail": detail}\<close>. The middleware therefore sees a
  response, not an exception, when a handler raises \<^verbatim>\<open>HTTPException\<close>. Of the
  response headers only the content type is kept.
\<close>

definition fastapi_response :: "handler_result \<Rightarrow> json response" where
  "fastapi_response r =
     (case r of
        Return v \<Rightarrow>
          \<lparr>status_code = 200, resp_headers = [(''content-type'', ''application/json'')],
           body = v\<rparr>
      | RaiseHTTPException code detail \<Rightarrow>
          \<lparr>status_code = code, resp_headers = [(''content-type'', ''application/json'')],
           body = JObj [(''detail'', JStr detail)]\<rparr>)"

definition route ::
  "('c telemetry \<Rightarrow> handler_result \<times> 'c telemetry) \<Rightarrow> request \<Rightarrow> 'c telemetry \<Rightarrow>
     json outcome \<times> 'c telemetry" where
  "route handler request st = (let (r, st) = handler st in (Returned (fastapi_response r), st))"

text \<open>
  The route table, in the order the router tries it. The first four routes are the ones
  \<^verbatim>\<open>FastAPI(...)\<close> (line 156) registers by itself when the application is created with
  its default documentation URLs; the others are the arguments of the \<^verbatim>\<open>@app.get\<close> and
  \<^verbatim>\<open>@app.post\<close> decorators, in source order. A request path matches a template when
  they have the same segments, a segment in braces standing for any non-empty path
  segment. The router is the framework's, not code of the repository.
\<close>

definition route_templates :: "string list" where
  "route_templates =
     [''/openapi.json'', ''/docs'', ''/docs/oauth2-redirect'', ''/redoc'',
      ''/health'', ''/metrics'', ''/'', ''/api/users'', ''/api/users/{user_id}'',
      ''/api/slow'', ''/api/error'']"

fun split_on :: "char \<Rightarrow> string \<Rightarrow> string list" where
  "split_on c [] = [[]]"
| "split_on c (x # xs) =
     (if x = c then [] # split_on c xs
      else (case split_on c xs of [] \<Rightarrow> [[x]] | w # ws \<Rightarrow> (x # w) # ws))"

definition is_param :: "string \<Rightarrow> bool" where
  "is_param seg = (seg \<noteq> [] \<and> hd seg = CHR ''{'' \<and> last seg = CHR ''}'')"

definition segment_matches :: "string \<Rightarrow> string \<Rightarrow> bool" where
  "segment_matches t p = (if is_param t then p \<noteq> [] else t = p)"

definition template_matches :: "string \<Rightarrow> string \<Rightarrow> bool" where
  "template_matches path t =
     list_all2 segment_matches (split_on CHR ''/'' t) (split_on CHR ''/'' path)"

definition matched_route :: "string \<Rightarrow> string option" where
  "matched_route path = find (template_matches path) route_templates"

section \<open>The validator's reading of the trace id\<close>

text \<open>
  \<^verbatim>\<open>ObservabilityValidator.test_backend_api\<close> in \<^verbatim>\<open>src/validate-setup.py\<close>, lines
  124 to 128: after each call it reads the response header \<^verbatim>\<open>X-Trace-Id\<close> and keeps
  the first non-empty value it sees. The lookup ignores case; header names are kept in
  lower case here.
\<close>

definition capture_trace_id :: "(string \<times> string) list \<Rightarrow> string option \<Rightarrow> string option" where
  "capture_trace_id hs trace_id =
     (let trace_header = map_of hs ''x-trace-id''
      in if trace_header \<noteq> None \<and> trace_header \<noteq> Some [] \<and>
            (trace_id = None \<or> trace_id = Some [])
         then trace_header else trace_id)"

section \<open>Concrete inputs\<close>

text \<open>
  The state of a freshly started process, a request as the validator sends it, a
  propagation library that extracts nothing, and two downstream applications that raise:
  one an ordinary exception, one the cancellation of the request.
\<close>

definition telemetry0 :: "'c telemetry" where
  "telemetry0 =
     \<lparr>now = 0, REQUEST_COUNT = (\<lambda>_. 0), REQUEST_DURATION = (\<lambda>_. []), ACTIVE_REQUESTS = 0,
      ERROR_COUNT = (\<lambda>_. 0), otel_request_counter = (\<lambda>_. 0),
      otel_request_duration = (\<lambda>_. []), log_records = [], ended_spans = []\<rparr>"

definition http_request :: "string \<Rightarrow> string \<Rightarrow> request" where
  "http_request m path =
     \<lparr>http_method = m, url_str = ''http://localhost:8000'' @ path, url_scheme = ''http'',
      url_hostname = Some ''localhost'', url_path = path,
      headers = [(''host'', ''localhost:8000''), (''user-agent'', ''python-requests/2.31.0'')],
      client_host = Some ''127.0.0.1''\<rparr>"

definition no_propagation :: "(string \<rightharpoonup> string) \<Rightarrow> unit" where
  "no_propagation carrier = ()"

definition ValueError :: py_exception where
  "ValueError = \<lparr>type_name = ''ValueError'', str_of = ''boom'', is_Exception = True\<rparr>"

definition CancelledError :: py_exception where
  "CancelledError = \<lparr>type_name = ''CancelledError'', str_of = [], is_Exception = False\<rparr>"

definition raising :: "py_exception \<Rightarrow> request \<Rightarrow> 'c telemetry \<Rightarrow> json outcome \<times> 'c telemetry" where
  "raising e request st = (Raised e, st)"

text \<open>Four requests served by a fresh process, used as concrete runs below.\<close>

definition run_get_user_7 :: "json outcome \<times> unit telemetry" where
  "run_get_user_7 =
     observability_middleware no_propagation (http_request ''GET'' ''/api/users/7'')
       (route (get_user 7 (1 / 4))) telemetry0"

definition run_get_user_11 :: "json outcome \<times> unit telemetry" where
  "run_get_user_11 =
     observability_middleware no_propagation (http_request ''GET'' ''/api/users/11'')
       (route (get_user 11 (1 / 4))) telemetry0"

definition run_ValueError :: "json outcome \<times> unit telemetry" where
  "run_ValueError =
     observability_middleware no_propagation (http_request ''GET'' ''/api/slow'')
       (raising ValueError) telemetry0"

definition run_cancelled :: "json outcome \<times> unit telemetry" where
  "run_cancelled =
     observability_middleware no_propagation (http_request ''GET'' ''/api/slow'')
       (raising CancelledError) telemetry0"

text \<open>
  Two requests in flight at once: while the first is being dispatched, a second one
  enters the middleware and has not yet left it when the first completes.
\<close>

definition overlapped_by ::
  "request \<Rightarrow> (request \<Rightarrow> unit telemetry \<Rightarrow> json outcome \<times> unit telemetry) \<Rightarrow>
     request \<Rightarrow> unit telemetry \<Rightarrow> json outcome \<times> unit telemetry" where
  "overlapped_by other call_next request st =
     call_next request (snd (request_entry no_propagation other st))"

definition run_overlapped :: "json outcome \<times> unit telemetry" where
  "run_overlapped =
     observability_middleware no_propagation (http_request ''GET'' ''/api/users/7'')
       (overlapped_by (http_request ''GET'' ''/api/slow'') (route (get_user 7 (1 / 4))))
       telemetry0"

section \<open>What each part of the middleware does to the state\<close>

lemma entry_fields:
  "ACTIVE_REQUESTS (snd (request_entry extract request st)) = ACTIVE_REQUESTS st + 1"
  "now (snd (request_entry extract request st)) = now st"
  "REQUEST_COUNT (snd (request_entry extract request st)) = REQUEST_COUNT st"
  "REQUEST_DURATION (snd (request_entry extract request st)) = REQUEST_DURATION st"
  "ERROR_COUNT (snd (request_entry extract request st)) = ERROR_COUNT st"
  "otel_request_counter (snd (request_entry extract request st)) = otel_request_counter st"
  "otel_request_duration (snd (request_entry extract request st)) = otel_request_duration st"
  "span_name (fst (request_entry extract request st)) =
     http_method request @ '' '' @ url_path request"
  "span_context (fst (request_entry extract request st)) =
     Some (extract (map_of (headers request)))"
  "span_status (fst (request_entry extract request st)) = Unset"
  by (simp_all add: request_entry_def Let_def emit_def set_attribute_def start_span_def)

lemma exit_fields:
  "ACTIVE_REQUESTS (request_exit sp st) = ACTIVE_REQUESTS st - 1"
  "REQUEST_COUNT (request_exit sp st) = REQUEST_COUNT st"
  "REQUEST_DURATION (request_exit sp st) = REQUEST_DURATION st"
  "ERROR_COUNT (request_exit sp st) = ERROR_COUNT st"
  "otel_request_counter (request_exit sp st) = otel_request_counter st"
  "otel_request_duration (request_exit sp st) = otel_request_duration st"
  "ended_spans (request_exit sp st) = ended_spans st @ [sp]"
  "log_records (request_exit sp st) = log_records st"
  by (simp_all add: request_exit_def end_span_def)

lemma on_response_fields:
  "fst (on_response request t0 r sp st) = Returned r"
  "ACTIVE_REQUESTS (snd (snd (on_response request t0 r sp st))) = ACTIVE_REQUESTS st"
  "REQUEST_COUNT (snd (snd (on_response request t0 r sp st))) =
     (REQUEST_COUNT st)((http_method request, url_path request, status_code r) :=
        REQUEST_COUNT st (http_method request, url_path request, status_code r) + 1)"
  "REQUEST_DURATION (snd (snd (on_response request t0 r sp st))) =
     (REQUEST_DURATION st)((http_method request, url_path request) :=
        REQUEST_DURATION st (http_method request, url_path request) @ [now st - t0])"
  "ERROR_COUNT (snd (snd (on_response request t0 r sp st))) = ERROR_COUNT st"
  "otel_request_counter (snd (snd (on_response request t0 r sp st))) =
     (otel_request_counter st)
       ([(''method'', http_method request), (''endpoint'', url_path request),
         (''status_code'', str_int (status_code r))] :=
        otel_request_counter st
          [(''method'', http_method request), (''endpoint'', url_path request),
           (''status_code'', str_int (status_code r))] + 1)"
  "otel_request_duration (snd (snd (on_response request t0 r sp st))) =
     (otel_request_duration st)
       ([(''method'', http_method request), (''endpoint'', url_path request)] :=
        otel_request_duration st
          [(''method'', http_method request), (''endpoint'', url_path request)]
          @ [(now st - t0) * 1000])"
  "span_status (fst (snd (on_response request t0 r sp st))) =
     (if status_code r \<ge> 400 then StatusERROR (''HTTP '' @ str_int (status_code r))
      else StatusOK)"
  "span_name (fst (snd (on_response request t0 r sp st))) = span_name sp"
  by (simp_all add: on_response_def Let_def emit_def labels_inc_def labels_observe_def
        counter_add_def histogram_record_def set_status_def set_attribute_def)

lemma on_exception_fields:
  "fst (on_exception request e sp st) = Raised e"
  "ACTIVE_REQUESTS (snd (snd (on_exception request e sp st))) = ACTIVE_REQUESTS st"
  "REQUEST_COUNT (snd (snd (on_exception request e sp st))) = REQUEST_COUNT st"
  "REQUEST_DURATION (snd (snd (on_exception request e sp st))) = REQUEST_DURATION st"
  "ERROR_COUNT (snd (snd (on_exception request e sp st))) =
     (ERROR_COUNT st)((http_method request, url_path request, type_name e) :=
        ERROR_COUNT st (http_method request, url_path request, type_name e) + 1)"
  "otel_request_counter (snd (snd (on_exception request e sp st))) = otel_request_counter st"
  "otel_request_duration (snd (snd (on_exception request e sp st))) = otel_request_duration st"
  "span_status (fst (snd (on_exception request e sp st))) = StatusERROR (str_of e)"
  "span_name (fst (snd (on_exception request e sp st))) = span_name sp"
  by (simp_all add: on_exception_def Let_def emit_def labels_inc_def set_status_def
        record_exception_def)

section \<open>What the middleware does, by how the downstream call completes\<close>

lemma middleware_result:
  "fst (observability_middleware extract request call_next st) =
     fst (call_next request (snd (request_entry extract request st)))"
  by (simp add: observability_middleware_def Let_def case_prod_beta
        on_response_fields on_exception_fields split: outcome.split)

lemma middleware_gauge:
  "ACTIVE_REQUESTS (snd (observability_middleware extract request call_next st)) =
     ACTIVE_REQUESTS (snd (call_next request (snd (request_entry extract request st)))) - 1"
  by (simp add: observability_middleware_def Let_def case_prod_beta exit_fields
        on_response_fields on_exception_fields split: outcome.split)

lemma middleware_REQUEST_COUNT:
  "REQUEST_COUNT (snd (observability_middleware extract request call_next st)) =
     (case call_next request (snd (request_entry extract request st)) of
        (Returned r, st') \<Rightarrow>
          (REQUEST_COUNT st')((http_method request, url_path request, status_code r) :=
             REQUEST_COUNT st' (http_method request, url_path request, status_code r) + 1)
      | (Raised e, st') \<Rightarrow> REQUEST_COUNT st')"
  by (simp add: observability_middleware_def Let_def case_prod_beta exit_fields
        on_response_fields on_exception_fields split: outcome.split)

lemma middleware_REQUEST_DURATION:
  "REQUEST_DURATION (snd (observability_middleware extract request call_next st)) =
     (case call_next request (snd (request_entry extract request st)) of
        (Returned r, st') \<Rightarrow>
          (REQUEST_DURATION st')((http_method request, url_path request) :=
             REQUEST_DURATION st' (http_method request, url_path request) @ [now st' - now st])
      | (Raised e, st') \<Rightarrow> REQUEST_DURATION st')"
  by (simp add: observability_middleware_def Let_def case_prod_beta exit_fields
        on_response_fields on_exception_fields split: outcome.split)

lemma middleware_ERROR_COUNT:
  "ERROR_COUNT (snd (observability_middleware extract request call_next st)) =
     (case call_next request (snd (request_entry extract request st)) of
        (Returned r, st') \<Rightarrow> ERROR_COUNT st'
      | (Raised e, st') \<Rightarrow>
          if is_Exception e
          then (ERROR_COUNT st')((http_method request, url_path request, type_name e) :=
                 ERROR_COUNT st' (http_method request, url_path request, type_name e) + 1)
          else ERROR_COUNT st')"
  by (simp add: observability_middleware_def Let_def case_prod_beta exit_fields
        on_response_fields on_exception_fields split: outcome.split)

lemma middleware_otel_request_counter:
  "otel_request_counter (snd (observability_middleware extract request call_next st)) =
     (case call_next request (snd (request_entry extract request st)) of
        (Returned r, st') \<Rightarrow>
          (otel_request_counter st')
            ([(''method'', http_method request), (''endpoint'', url_path request),
              (''status_code'', str_int (status_code r))] :=
             otel_request_counter st'
               [(''method'', http_method request), (''endpoint'', url_path request),
                (''status_code'', str_int (status_code r))] + 1)
      | (Raised e, st') \<Rightarrow> otel_request_counter st')"
  by (simp add: observability_middleware_def Let_def case_prod_beta exit_fields
        on_response_fields on_exception_fields split: outcome.split)

lemma middleware_otel_request_duration:
  "otel_request_duration (snd (observability_middleware extract request call_next st)) =
     (case call_next request (snd (request_entry extract request st)) of
        (Returned r, st') \<Rightarrow>
          (otel_request_duration st')
            ([(''method'', http_method request), (''endpoint'', url_path request)] :=
             otel_request_duration st'
               [(''method'', http_method request), (''endpoint'', url_path request)]
               @ [(now st' - now st) * 1000])
      | (Raised e, st') \<Rightarrow> otel_request_duration st')"
  by (simp add: observability_middleware_def Let_def case_prod_beta exit_fields
        on_response_fields on_exception_fields split: outcome.split)

lemma middleware_span:
  "ended_spans (snd (observability_middleware extract request call_next st)) \<noteq> []"
  "span_name (last (ended_spans (snd (observability_middleware extract request call_next st)))) =
     http_method request @ '' '' @ url_path request"
  "span_context (last (ended_spans (snd (observability_middleware extract request call_next st)))) =
     Some (extract (map_of (headers request)))"
  "span_status (last (ended_spans (snd (observability_middleware extract request call_next st)))) =
     (case fst (call_next request (snd (request_entry extract request st))) of
        Returned r \<Rightarrow>
          if status_code r \<ge> 400 then StatusERROR (''HTTP '' @ str_int (status_code r))
          else StatusOK
      | Raised e \<Rightarrow> if is_Exception e then StatusERROR (str_of e) else Unset)"
  by (simp_all add: observability_middleware_def Let_def case_prod_beta exit_fields
        on_response_fields on_exception_fields entry_fields on_response_def on_exception_def
        set_attribute_def set_status_def record_exception_def split: outcome.split)

section \<open>The handlers behind the framework\<close>

lemma str_int_examples:
  "str_int 200 = ''200''" "str_int 404 = ''404''" "str_int 5 = ''5''" "str_int 7 = ''7''"
  by code_simp+

lemma matched_route_examples:
  "matched_route ''/api/users/7'' = Some ''/api/users/{user_id}''"
  "matched_route ''/api/users'' = Some ''/api/users''"
  "matched_route ''/api/slow'' = Some ''/api/slow''"
  by code_simp+

lemma raising_call: "raising e request st = (Raised e, st)"
  by (simp add: raising_def)

lemma route_call:
  "route handler request st = (Returned (fastapi_response (fst (handler st))), snd (handler st))"
  by (simp add: route_def case_prod_beta)

lemma get_user_result:
  "fst (get_user user_id slept st) =
     (if user_id > 10 then RaiseHTTPException 404 ''User not found''
      else Return (JObj [(''id'', JInt user_id),
                         (''name'', JStr (''User '' @ str_int user_id)),
                         (''email'', JStr (''user'' @ str_int user_id @ ''@example.com''))]))"
  by (simp add: get_user_def Let_def)

lemma get_user_state:
  "ACTIVE_REQUESTS (snd (get_user user_id slept st)) = ACTIVE_REQUESTS st"
  "REQUEST_COUNT (snd (get_user user_id slept st)) = REQUEST_COUNT st"
  "REQUEST_DURATION (snd (get_user user_id slept st)) = REQUEST_DURATION st"
  "ERROR_COUNT (snd (get_user user_id slept st)) = ERROR_COUNT st"
  "otel_request_counter (snd (get_user user_id slept st)) = otel_request_counter st"
  "otel_request_duration (snd (get_user user_id slept st)) = otel_request_duration st"
  "now (snd (get_user user_id slept st)) = now st + slept"
  by (simp_all add: get_user_def Let_def simulate_work_def emit_def end_span_def)

lemma create_user_result:
  "fst (create_user user_data slept st) =
     Return (JObj [(''id'', JInt 100),
                   (''name'', dict_get user_data ''name''),
                   (''email'', dict_get user_data ''email''),
                   (''created_at'', JFloat (now st + slept))])"
  by (simp add: create_user_def Let_def simulate_work_def)

section \<open>Decimal ids and the paths of one route\<close>

text \<open>
  The decimal rendering of a number has digits only and determines the number, so
  \<^verbatim>\<open>/api/users/0\<close>, \<^verbatim>\<open>/api/users/1\<close>, ... are pairwise different paths, and every one
  of them matches the template \<^verbatim>\<open>/api/users/{user_id}\<close>.
\<close>

lemma split_on_no_sep: "c \<notin> set s \<Longrightarrow> split_on c s = [s]"
  by (induction s) auto

lemma digit_char_in: "d < 10 \<Longrightarrow> digit_char d \<in> set ''0123456789''"
  unfolding digit_char_def by (rule nth_mem) simp

lemma str_nat_digits: "set (str_nat n) \<subseteq> set ''0123456789''"
proof (induction n rule: str_nat.induct)
  case (1 n)
  show ?case
  proof (cases "n < 10")
    case True
    then show ?thesis
      using digit_char_in [of n] by (subst str_nat.simps) simp
  next
    case False
    then show ?thesis
      using "1.IH" digit_char_in [of "n mod 10"] by (subst str_nat.simps) simp
  qed
qed

lemma str_nat_no_slash: "CHR ''/'' \<notin> set (str_nat n)"
  using str_nat_digits [of n] by auto

lemma str_nat_not_Nil: "str_nat n \<noteq> []"
  by (subst str_nat.simps) simp

lemma digit_char_inj:
  assumes "d < 10" "d' < 10" "digit_char d = digit_char d'"
  shows "d = d'"
proof -
  have "distinct ''0123456789''" by simp
  then show ?thesis
    using assms unfolding digit_char_def by (simp add: nth_eq_iff_index_eq)
qed

lemma str_nat_inj: "str_nat n = str_nat m \<Longrightarrow> n = m"
proof (induction n arbitrary: m rule: str_nat.induct)
  case (1 n)
  show ?case
  proof (cases "n < 10")
    case True
    then have n: "str_nat n = [digit_char n]" by (subst str_nat.simps) simp
    show ?thesis
    proof (cases "m < 10")
      case m: True
      then have "str_nat m = [digit_char m]" by (subst str_nat.simps) simp
      with n "1.prems" have "digit_char n = digit_char m" by simp
      with True m show ?thesis by (rule digit_char_inj)
    next
      case False
      then have "str_nat m = str_nat (m div 10) @ [digit_char (m mod 10)]"
        by (subst str_nat.simps) simp
      with n "1.prems" str_nat_not_Nil [of "m div 10"] show ?thesis by simp
    qed
  next
    case False
    then have n: "str_nat n = str_nat (n div 10) @ [digit_char (n mod 10)]"
      by (subst str_nat.simps) simp
    show ?thesis
    proof (cases "m < 10")
      case True
      then have "str_nat m = [digit_char m]" by (subst str_nat.simps) simp
      with n "1.prems" str_nat_not_Nil [of "n div 10"] show ?thesis by simp
    next
      case m: False
      then have "str_nat m = str_nat (m div 10) @ [digit_char (m mod 10)]"
        by (subst str_nat.simps) simp
      with n "1.prems" have eq: "str_nat (n div 10) = str_nat (m div 10)"
        and dg: "digit_char (n mod 10) = digit_char (m mod 10)" by simp_all
      from "1.IH" [OF False eq] have "n div 10 = m div 10" .
      moreover from dg have "n mod 10 = m mod 10"
        by (intro digit_char_inj) simp_all
      ultimately show ?thesis by (metis div_mult_mod_eq)
    qed
  qed
qed

lemma matched_route_user:
  "CHR ''/'' \<notin> set s \<Longrightarrow> s \<noteq> [] \<Longrightarrow>
     matched_route (''/api/users/'' @ s) = Some ''/api/users/{user_id}''"
  by (simp add: matched_route_def route_templates_def template_matches_def split_on_no_sep
        segment_matches_def is_param_def)

lemma str_int_nat: "str_int (int n) = str_nat n"
  by (simp add: str_int_def)

lemma user_path_matched:
  "matched_route (''/api/users/'' @ str_int (int n)) = Some ''/api/users/{user_id}''"
  unfolding str_int_nat by (rule matched_route_user) (simp_all add: str_nat_no_slash str_nat_not_Nil)

lemma user_path_inj:
  "''/api/users/'' @ str_int (int n) = ''/api/users/'' @ str_int (int m) \<Longrightarrow> n = m"
proof -
  assume "''/api/users/'' @ str_int (int n) = ''/api/users/'' @ str_int (int m)"
  then have "str_nat n = str_nat m" by (simp add: str_int_nat)
  then show "n = m" by (rule str_nat_inj)
qed

lemma user_paths_infinite:
  "infinite {url_path request |request :: request.
      matched_route (url_path request) = Some ''/api/users/{user_id}''}"
proof
  assume fin: "finite {url_path request |request :: request.
      matched_route (url_path request) = Some ''/api/users/{user_id}''}"
  have inj: "inj (\<lambda>n. ''/api/users/'' @ str_int (int n))"
    by (rule injI) (rule user_path_inj)
  have "range (\<lambda>n. ''/api/users/'' @ str_int (int n)) \<subseteq>
      {url_path request |request :: request.
         matched_route (url_path request) = Some ''/api/users/{user_id}''}"
  proof
    fix p
    assume "p \<in> range (\<lambda>n. ''/api/users/'' @ str_int (int n))"
    then obtain n where p: "p = ''/api/users/'' @ str_int (int n)" by (rule rangeE)
    have path: "url_path (http_request ''GET'' p) = p" by (simp add: http_request_def)
    have matched: "matched_route p = Some ''/api/users/{user_id}''"
      unfolding p by (rule user_path_matched)
    have "matched_route (url_path (http_request ''GET'' p)) = Some ''/api/users/{user_id}''"
      by (simp only: path matched)
    then show "p \<in> {url_path request |request :: request.
        matched_route (url_path request) = Some ''/api/users/{user_id}''}"
    proof -
      have "\<exists>request :: request. p = url_path request \<and>
              matched_route (url_path request) = Some ''/api/users/{user_id}''"
        by (rule exI [of _ "http_request ''GET'' p"]) (simp add: path matched)
      then show ?thesis by simp
    qed
  qed
  with fin have "finite (range (\<lambda>n. ''/api/users/'' @ str_int (int n)))"
    by (rule rev_finite_subset)
  then have "finite (UNIV :: nat set)"
    using inj by (rule finite_imageD)
  then show False by simp
qed

lemma overlapped_by_call:
  "overlapped_by other call_next request st =
     call_next request (snd (request_entry no_propagation other st))"
  by (simp add: overlapped_by_def)

section \<open>The active-requests gauge\<close>

text \<open>
  Claim C1. The gauge is incremented exactly once at entry and decremented exactly once
  at exit, on every completion path and whatever happens in between. \<open>call_next\<close> is
  arbitrary: it may return a response, raise an exception or raise the cancellation of
  the request, and it may change the gauge itself, as it does when other requests enter
  or leave the middleware while this one is being dispatched. Without any assumption on
  it: the state it runs on has the gauge one above the pre-request value; the gauge after
  the middleware is exactly one below what \<open>call_next\<close> left; so the change of the
  gauge over the whole request is the change made during the dispatch, the request's own
  contribution being zero. In particular, when the dispatch leaves the gauge as it found
  it, the gauge after the request equals its pre-request value.
\<close>

theorem active_requests_restored:
  "ACTIVE_REQUESTS (snd (request_entry extract request st)) = ACTIVE_REQUESTS st + 1 \<and>
   ACTIVE_REQUESTS (snd (observability_middleware extract request call_next st)) =
     ACTIVE_REQUESTS (snd (call_next request (snd (request_entry extract request st)))) - 1 \<and>
   ACTIVE_REQUESTS (snd (observability_middleware extract request call_next st)) -
     ACTIVE_REQUESTS st =
     ACTIVE_REQUESTS (snd (call_next request (snd (request_entry extract request st)))) -
     ACTIVE_REQUESTS (snd (request_entry extract request st)) \<and>
   (ACTIVE_REQUESTS (snd (call_next request (snd (request_entry extract request st)))) =
      ACTIVE_REQUESTS (snd (request_entry extract request st)) \<longrightarrow>
    ACTIVE_REQUESTS (snd (observability_middleware extract request call_next st)) =
      ACTIVE_REQUESTS st)"
  by (simp add: entry_fields middleware_gauge)

text \<open>
  On a fresh process: a 404 response, an exception and a cancellation each leave the
  gauge at 0; a request during whose dispatch another request entered, and is still in
  flight, leaves it at 1.
\<close>

theorem active_requests_restored_witness:
  "fst run_get_user_11 =
     Returned \<lparr>status_code = 404, resp_headers = [(''content-type'', ''application/json'')],
               body = JObj [(''detail'', JStr ''User not found'')]\<rparr> \<and>
   ACTIVE_REQUESTS (snd run_get_user_11) = 0 \<and>
   fst run_ValueError = Raised ValueError \<and>
   ACTIVE_REQUESTS (snd run_ValueError) = 0 \<and>
   fst run_cancelled = Raised CancelledError \<and>
   ACTIVE_REQUESTS (snd run_cancelled) = 0 \<and>
   ACTIVE_REQUESTS (snd run_overlapped) = 1"
  using
    active_requests_restored [of no_propagation "http_request ''GET'' ''/api/users/11''"
      telemetry0 "route (get_user 11 (1 / 4))"]
    active_requests_restored [of no_propagation "http_request ''GET'' ''/api/slow''"
      telemetry0 "raising ValueError"]
    active_requests_restored [of no_propagation "http_request ''GET'' ''/api/slow''"
      telemetry0 "raising CancelledError"]
    active_requests_restored [of no_propagation "http_request ''GET'' ''/api/users/7''"
      telemetry0
      "overlapped_by (http_request ''GET'' ''/api/slow'') (route (get_user 7 (1 / 4)))"]
  by (simp add: run_get_user_11_def run_ValueError_def run_cancelled_def run_overlapped_def
        middleware_result route_call get_user_result get_user_state fastapi_response_def
        raising_call overlapped_by_call entry_fields telemetry0_def)

section \<open>Exceptions raised downstream\<close>

text \<open>
  Claim C2, as amended. When \<open>call_next\<close> raises, the middleware raises the same object
  again. When the object is an instance of \<^verbatim>\<open>Exception\<close>, the error counter is
  incremented by one at the labels (method, path, type name) and nowhere else; when it is
  not (a cancellation, a keyboard interrupt), the \<^verbatim>\<open>except Exception\<close> clause does not
  apply and the error counter is left as it was.
\<close>

theorem error_count_on_raise:
  assumes "call_next request (snd (request_entry extract request st)) = (Raised e, st')"
  shows "fst (observability_middleware extract request call_next st) = Raised e \<and>
         ERROR_COUNT (snd (observability_middleware extract request call_next st)) =
           (if is_Exception e
            then (ERROR_COUNT st')((http_method request, url_path request, type_name e) :=
                   ERROR_COUNT st' (http_method request, url_path request, type_name e) + 1)
            else ERROR_COUNT st')"
  using assms by (simp add: middleware_result middleware_ERROR_COUNT)

theorem error_count_on_raise_witness:
  "fst run_ValueError = Raised ValueError \<and>
   ERROR_COUNT (snd run_ValueError) (''GET'', ''/api/slow'', ''ValueError'') = 1 \<and>
   ERROR_COUNT (snd run_ValueError) (''GET'', ''/api/slow'', ''KeyError'') = 0"
  using error_count_on_raise [of "raising ValueError" "http_request ''GET'' ''/api/slow''"
          no_propagation telemetry0 ValueError
          "snd (request_entry no_propagation (http_request ''GET'' ''/api/slow'') telemetry0)"]
  by (simp add: run_ValueError_def raising_call entry_fields telemetry0_def ValueError_def
        http_request_def)

text \<open>
  The claim as stated fails for a cancelled request: \<^verbatim>\<open>CancelledError\<close> is raised out
  of \<open>call_next\<close>, it propagates, and no error is counted for it.
\<close>

theorem cancellation_not_counted:
  "fst run_cancelled = Raised CancelledError \<and>
   \<not> is_Exception CancelledError \<and>
   ERROR_COUNT (snd run_cancelled) (''GET'', ''/api/slow'', ''CancelledError'') = 0"
  by (simp add: run_cancelled_def middleware_result middleware_ERROR_COUNT raising_call
        entry_fields telemetry0_def CancelledError_def)

section \<open>The endpoint label\<close>

text \<open>
  Claim C3, as amended. The endpoint label on \<^verbatim>\<open>REQUEST_COUNT\<close>,
  \<^verbatim>\<open>REQUEST_DURATION\<close> and \<^verbatim>\<open>ERROR_COUNT\<close> is \<^verbatim>\<open>request.url.path\<close>, the path of the
  request as it was sent: exactly the series with that path changes. Requests to
  \<^verbatim>\<open>/api/users/{user_id}\<close> with different ids have different paths, all matched by
  that one route, so the endpoint labels of that route alone form an infinite set: the
  label values are not bounded.
\<close>

theorem endpoint_label_is_request_path:
  "(call_next request (snd (request_entry extract request st)) = (Returned r, st') \<longrightarrow>
      REQUEST_COUNT (snd (observability_middleware extract request call_next st)) =
        (REQUEST_COUNT st')((http_method request, url_path request, status_code r) :=
           REQUEST_COUNT st' (http_method request, url_path request, status_code r) + 1) \<and>
      REQUEST_DURATION (snd (observability_middleware extract request call_next st)) =
        (REQUEST_DURATION st')((http_method request, url_path request) :=
           REQUEST_DURATION st' (http_method request, url_path request) @ [now st' - now st])) \<and>
   (call_next request (snd (request_entry extract request st)) = (Raised e, st') \<and>
    is_Exception e \<longrightarrow>
      ERROR_COUNT (snd (observability_middleware extract request call_next st)) =
        (ERROR_COUNT st')((http_method request, url_path request, type_name e) :=
           ERROR_COUNT st' (http_method request, url_path request, type_name e) + 1)) \<and>
   matched_route (''/api/users/'' @ str_int (int n)) = Some ''/api/users/{user_id}'' \<and>
   (''/api/users/'' @ str_int (int n) = ''/api/users/'' @ str_int (int m) \<longrightarrow> n = m) \<and>
   infinite {url_path request |request :: request.
      matched_route (url_path request) = Some ''/api/users/{user_id}''}"
proof (intro conjI impI)
  assume "call_next request (snd (request_entry extract request st)) = (Returned r, st')"
  then show
    "REQUEST_COUNT (snd (observability_middleware extract request call_next st)) =
       (REQUEST_COUNT st')((http_method request, url_path request, status_code r) :=
          REQUEST_COUNT st' (http_method request, url_path request, status_code r) + 1)"
    and
    "REQUEST_DURATION (snd (observability_middleware extract request call_next st)) =
       (REQUEST_DURATION st')((http_method request, url_path request) :=
          REQUEST_DURATION st' (http_method request, url_path request) @ [now st' - now st])"
    by (simp_all add: middleware_REQUEST_COUNT middleware_REQUEST_DURATION)
next
  assume "call_next request (snd (request_entry extract request st)) = (Raised e, st') \<and>
          is_Exception e"
  then show
    "ERROR_COUNT (snd (observability_middleware extract request call_next st)) =
       (ERROR_COUNT st')((http_method request, url_path request, type_name e) :=
          ERROR_COUNT st' (http_method request, url_path request, type_name e) + 1)"
    by (simp add: middleware_ERROR_COUNT)
next
  show "matched_route (''/api/users/'' @ str_int (int n)) = Some ''/api/users/{user_id}''"
    by (rule user_path_matched)
next
  assume "''/api/users/'' @ str_int (int n) = ''/api/users/'' @ str_int (int m)"
  then show "n = m" by (rule user_path_inj)
next
  show "infinite {url_path request |request :: request.
      matched_route (url_path request) = Some ''/api/users/{user_id}''}"
    by (rule user_paths_infinite)
qed

theorem endpoint_label_is_request_path_witness:
  "REQUEST_COUNT (snd run_get_user_7) (''GET'', ''/api/users/7'', 200) = 1 \<and>
   REQUEST_DURATION (snd run_get_user_7) (''GET'', ''/api/users/7'') = [1 / 4] \<and>
   ERROR_COUNT (snd run_ValueError) (''GET'', ''/api/slow'', ''ValueError'') = 1 \<and>
   matched_route ''/api/users/7'' = Some ''/api/users/{user_id}'' \<and>
   matched_route ''/api/users/8'' = Some ''/api/users/{user_id}'' \<and>
   ''/api/users/7'' \<noteq> ''/api/users/8''"
proof -
  have returned:
    "REQUEST_COUNT (snd run_get_user_7) (''GET'', ''/api/users/7'', 200) = 1 \<and>
     REQUEST_DURATION (snd run_get_user_7) (''GET'', ''/api/users/7'') = [1 / 4]"
    using
      endpoint_label_is_request_path [of "route (get_user 7 (1 / 4))"
        "http_request ''GET'' ''/api/users/7''" no_propagation telemetry0
        "fastapi_response (fst (get_user 7 (1 / 4)
           (snd (request_entry no_propagation (http_request ''GET'' ''/api/users/7'') telemetry0))))"
        "snd (get_user 7 (1 / 4)
           (snd (request_entry no_propagation (http_request ''GET'' ''/api/users/7'') telemetry0)))"
        _ 7 8, THEN conjunct1]
    by (simp add: run_get_user_7_def route_call get_user_result get_user_state
          fastapi_response_def entry_fields telemetry0_def http_request_def)
  have raised:
    "ERROR_COUNT (snd run_ValueError) (''GET'', ''/api/slow'', ''ValueError'') = 1"
    using
      endpoint_label_is_request_path [of "raising ValueError" "http_request ''GET'' ''/api/slow''"
        no_propagation telemetry0 _
        "snd (request_entry no_propagation (http_request ''GET'' ''/api/slow'') telemetry0)"
        ValueError 7 8, THEN conjunct2, THEN conjunct1]
    by (simp add: run_ValueError_def raising_call entry_fields telemetry0_def ValueError_def
          http_request_def)
  have digits: "str_int (int 7) = ''7''" "str_int (int 8) = ''8''"
    by code_simp+
  have seven: "matched_route ''/api/users/7'' = Some ''/api/users/{user_id}''"
    using
      endpoint_label_is_request_path [of "raising ValueError" "http_request ''GET'' ''/api/slow''"
        no_propagation telemetry0 _
        "snd (request_entry no_propagation (http_request ''GET'' ''/api/slow'') telemetry0)"
        ValueError 7 8, THEN conjunct2, THEN conjunct2, THEN conjunct1]
    by (simp only: digits append.simps)
  have eight: "matched_route ''/api/users/8'' = Some ''/api/users/{user_id}''"
    using
      endpoint_label_is_request_path [of "raising ValueError" "http_request ''GET'' ''/api/slow''"
        no_propagation telemetry0 _
        "snd (request_entry no_propagation (http_request ''GET'' ''/api/slow'') telemetry0)"
        ValueError 8 7, THEN conjunct2, THEN conjunct2, THEN conjunct1]
    by (simp only: digits append.simps)
  from returned raised seven eight show ?thesis by simp
qed

text \<open>
  The claim as stated fails on \<^verbatim>\<open>GET /api/users/7\<close>: the matched route is
  \<^verbatim>\<open>/api/users/{user_id}\<close>, and the series that changes is the one labelled with the
  raw path; the series labelled with the route template stays empty.
\<close>

theorem endpoint_label_not_route_template:
  "matched_route (url_path (http_request ''GET'' ''/api/users/7'')) =
     Some ''/api/users/{user_id}'' \<and>
   REQUEST_COUNT (snd run_get_user_7) (''GET'', ''/api/users/7'', 200) = 1 \<and>
   REQUEST_COUNT (snd run_get_user_7) (''GET'', ''/api/users/{user_id}'', 200) = 0 \<and>
   REQUEST_DURATION (snd run_get_user_7) (''GET'', ''/api/users/7'') = [1 / 4] \<and>
   REQUEST_DURATION (snd run_get_user_7) (''GET'', ''/api/users/{user_id}'') = []"
  by (simp add: run_get_user_7_def middleware_REQUEST_COUNT middleware_REQUEST_DURATION
        route_call get_user_result get_user_state fastapi_response_def entry_fields
        telemetry0_def http_request_def matched_route_examples)

section \<open>The registry and the metrics provider\<close>

text \<open>
  Claim C4, as amended. When \<open>call_next\<close> returns a response, the registry's request
  counter and the provider's request counter each go up by one, under the same method and
  endpoint (the request path) and the same status code, which the registry gets as an int
  and the provider as its decimal string; the registry's histogram observes the duration
  in seconds and the provider's histogram records that duration times 1000, under the same
  method and endpoint. The error counter and the gauge have no counterpart in the
  provider: when \<open>call_next\<close> raises, and at entry, no provider instrument changes.
\<close>

theorem registry_and_provider_instruments:
  "(call_next request (snd (request_entry extract request st)) = (Returned r, st') \<longrightarrow>
      REQUEST_COUNT (snd (observability_middleware extract request call_next st)) =
        (REQUEST_COUNT st')((http_method request, url_path request, status_code r) :=
           REQUEST_COUNT st' (http_method request, url_path request, status_code r) + 1) \<and>
      otel_request_counter (snd (observability_middleware extract request call_next st)) =
        (otel_request_counter st')
          ([(''method'', http_method request), (''endpoint'', url_path request),
            (''status_code'', str_int (status_code r))] :=
           otel_request_counter st'
             [(''method'', http_method request), (''endpoint'', url_path request),
              (''status_code'', str_int (status_code r))] + 1) \<and>
      REQUEST_DURATION (snd (observability_middleware extract request call_next st)) =
        (REQUEST_DURATION st')((http_method request, url_path request) :=
           REQUEST_DURATION st' (http_method request, url_path request) @ [now st' - now st]) \<and>
      otel_request_duration (snd (observability_middleware extract request call_next st)) =
        (otel_request_duration st')
          ([(''method'', http_method request), (''endpoint'', url_path request)] :=
           otel_request_duration st'
             [(''method'', http_method request), (''endpoint'', url_path request)]
             @ [(now st' - now st) * 1000])) \<and>
   (call_next request (snd (request_entry extract request st)) = (Raised e, st') \<longrightarrow>
      otel_request_counter (snd (observability_middleware extract request call_next st)) =
        otel_request_counter st' \<and>
      otel_request_duration (snd (observability_middleware extract request call_next st)) =
        otel_request_duration st') \<and>
   otel_request_counter (snd (request_entry extract request st)) = otel_request_counter st \<and>
   otel_request_duration (snd (request_entry extract request st)) = otel_request_duration st"
  by (simp add: middleware_REQUEST_COUNT middleware_REQUEST_DURATION
        middleware_otel_request_counter middleware_otel_request_duration entry_fields)

theorem registry_and_provider_instruments_witness:
  "REQUEST_COUNT (snd run_get_user_7) (''GET'', ''/api/users/7'', 200) = 1 \<and>
   otel_request_counter (snd run_get_user_7)
     [(''method'', ''GET''), (''endpoint'', ''/api/users/7''), (''status_code'', ''200'')] = 1 \<and>
   otel_request_counter (snd run_ValueError) = otel_request_counter (telemetry0 :: unit telemetry)"
  using
    registry_and_provider_instruments [of "route (get_user 7 (1 / 4))"
      "http_request ''GET'' ''/api/users/7''" no_propagation telemetry0
      "fastapi_response (fst (get_user 7 (1 / 4)
         (snd (request_entry no_propagation (http_request ''GET'' ''/api/users/7'') telemetry0))))"
      "snd (get_user 7 (1 / 4)
         (snd (request_entry no_propagation (http_request ''GET'' ''/api/users/7'') telemetry0)))"]
    registry_and_provider_instruments [of "raising ValueError"
      "http_request ''GET'' ''/api/slow''" no_propagation telemetry0 _
      "snd (request_entry no_propagation (http_request ''GET'' ''/api/slow'') telemetry0)"
      ValueError]
  by (simp add: run_get_user_7_def run_ValueError_def route_call raising_call get_user_result
        get_user_state fastapi_response_def entry_fields telemetry0_def http_request_def
        str_int_examples)

text \<open>
  The claim as stated fails on \<^verbatim>\<open>GET /api/users/7\<close> served in a quarter of a second:
  the registry's histogram holds 1/4 and the provider's holds 250 for the same request.
  It fails again when the downstream call raises \<^verbatim>\<open>ValueError\<close>: the registry's error
  counter goes up and no instrument of the provider does.
\<close>

theorem registry_and_provider_values_differ:
  "REQUEST_DURATION (snd run_get_user_7) (''GET'', ''/api/users/7'') = [1 / 4] \<and>
   otel_request_duration (snd run_get_user_7)
     [(''method'', ''GET''), (''endpoint'', ''/api/users/7'')] = [250] \<and>
   ERROR_COUNT (snd run_ValueError) (''GET'', ''/api/slow'', ''ValueError'') = 1 \<and>
   otel_request_counter (snd run_ValueError) = otel_request_counter (telemetry0 :: unit telemetry) \<and>
   otel_request_duration (snd run_ValueError) =
     otel_request_duration (telemetry0 :: unit telemetry)"
  by (simp add: run_get_user_7_def run_ValueError_def middleware_REQUEST_DURATION
        middleware_otel_request_duration middleware_otel_request_counter middleware_ERROR_COUNT
        route_call raising_call get_user_result get_user_state fastapi_response_def
        entry_fields telemetry0_def http_request_def ValueError_def)

section \<open>Error responses are not errors\<close>

text \<open>
  Claim C5. A response returned by \<open>call_next\<close>, whatever its status code and so also
  with a status code of 400 or more, increments the request counter under that status
  code and leaves the error counter as it was. The error counter changes only when
  \<open>call_next\<close> raises an exception. The 404 of \<^verbatim>\<open>get_user\<close> for an id above 10 reaches
  the middleware as such a response.
\<close>

theorem error_response_not_counted_as_error:
  "(call_next request (snd (request_entry extract request st)) = (Returned r, st') \<longrightarrow>
      REQUEST_COUNT (snd (observability_middleware extract request call_next st)) =
        (REQUEST_COUNT st')((http_method request, url_path request, status_code r) :=
           REQUEST_COUNT st' (http_method request, url_path request, status_code r) + 1) \<and>
      ERROR_COUNT (snd (observability_middleware extract request call_next st)) =
        ERROR_COUNT st') \<and>
   (ERROR_COUNT (snd (observability_middleware extract request call_next st)) \<noteq>
      ERROR_COUNT (snd (call_next request (snd (request_entry extract request st)))) \<longrightarrow>
    (\<exists>e. fst (call_next request (snd (request_entry extract request st))) = Raised e \<and>
         is_Exception e))"
  by (auto simp add: middleware_REQUEST_COUNT middleware_ERROR_COUNT
        split: prod.splits outcome.splits if_splits)

theorem error_response_not_counted_as_error_witness:
  "fst run_get_user_11 =
     Returned \<lparr>status_code = 404, resp_headers = [(''content-type'', ''application/json'')],
               body = JObj [(''detail'', JStr ''User not found'')]\<rparr> \<and>
   REQUEST_COUNT (snd run_get_user_11) (''GET'', ''/api/users/11'', 404) = 1 \<and>
   ERROR_COUNT (snd run_get_user_11) = ERROR_COUNT (telemetry0 :: unit telemetry) \<and>
   ERROR_COUNT (snd run_ValueError) \<noteq> ERROR_COUNT (telemetry0 :: unit telemetry) \<and>
   fst run_ValueError = Raised ValueError \<and> is_Exception ValueError"
proof -
  have response:
    "fst run_get_user_11 =
       Returned \<lparr>status_code = 404, resp_headers = [(''content-type'', ''application/json'')],
                 body = JObj [(''detail'', JStr ''User not found'')]\<rparr> \<and>
     REQUEST_COUNT (snd run_get_user_11) (''GET'', ''/api/users/11'', 404) = 1 \<and>
     ERROR_COUNT (snd run_get_user_11) = ERROR_COUNT (telemetry0 :: unit telemetry)"
    using
      error_response_not_counted_as_error [of "route (get_user 11 (1 / 4))"
        "http_request ''GET'' ''/api/users/11''" no_propagation telemetry0
        "fastapi_response (fst (get_user 11 (1 / 4)
           (snd (request_entry no_propagation (http_request ''GET'' ''/api/users/11'') telemetry0))))"
        "snd (get_user 11 (1 / 4)
           (snd (request_entry no_propagation (http_request ''GET'' ''/api/users/11'') telemetry0)))"]
    by (simp add: run_get_user_11_def middleware_result route_call get_user_result
          get_user_state fastapi_response_def entry_fields telemetry0_def http_request_def)
  have "ERROR_COUNT (snd run_ValueError) (''GET'', ''/api/slow'', ''ValueError'') = 1"
    by (simp add: run_ValueError_def middleware_ERROR_COUNT raising_call entry_fields
          telemetry0_def ValueError_def http_request_def)
  moreover have "ERROR_COUNT (telemetry0 :: unit telemetry) (''GET'', ''/api/slow'', ''ValueError'') = 0"
    by (simp add: telemetry0_def)
  ultimately have changed:
    "ERROR_COUNT (snd run_ValueError) \<noteq> ERROR_COUNT (telemetry0 :: unit telemetry)"
    by (metis zero_neq_one)
  have raised: "fst run_ValueError = Raised ValueError \<and> is_Exception ValueError"
    using changed
      error_response_not_counted_as_error [of "raising ValueError"
        "http_request ''GET'' ''/api/slow''" no_propagation telemetry0]
    by (simp add: run_ValueError_def middleware_result raising_call entry_fields
          telemetry0_def)
  from response changed raised show ?thesis by simp
qed

section \<open>The span status\<close>

text \<open>
  Claim C6. When \<open>call_next\<close> returns a response, the span the middleware ends (the last
  one ended, named after the method and the path) has status OK when the status code is
  below 400, and status ERROR with the message \<^verbatim>\<open>HTTP\<close> followed by the status code
  otherwise.
\<close>

theorem span_status_of_response:
  assumes "call_next request (snd (request_entry extract request st)) = (Returned r, st')"
  shows "span_name (last (ended_spans (snd (observability_middleware extract request call_next st)))) =
           http_method request @ '' '' @ url_path request \<and>
         span_status (last (ended_spans (snd (observability_middleware extract request call_next st)))) =
           (if status_code r < 400 then StatusOK
            else StatusERROR (''HTTP '' @ str_int (status_code r)))"
  using assms by (simp add: middleware_span)

theorem span_status_of_response_witness:
  "span_status (last (ended_spans (snd run_get_user_7))) = StatusOK \<and>
   span_name (last (ended_spans (snd run_get_user_11))) = ''GET /api/users/11'' \<and>
   span_status (last (ended_spans (snd run_get_user_11))) = StatusERROR ''HTTP 404''"
  using
    span_status_of_response [of "route (get_user 7 (1 / 4))"
      "http_request ''GET'' ''/api/users/7''" no_propagation telemetry0
      "fastapi_response (fst (get_user 7 (1 / 4)
         (snd (request_entry no_propagation (http_request ''GET'' ''/api/users/7'') telemetry0))))"
      "snd (get_user 7 (1 / 4)
         (snd (request_entry no_propagation (http_request ''GET'' ''/api/users/7'') telemetry0)))"]
    span_status_of_response [of "route (get_user 11 (1 / 4))"
      "http_request ''GET'' ''/api/users/11''" no_propagation telemetry0
      "fastapi_response (fst (get_user 11 (1 / 4)
         (snd (request_entry no_propagation (http_request ''GET'' ''/api/users/11'') telemetry0))))"
      "snd (get_user 11 (1 / 4)
         (snd (request_entry no_propagation (http_request ''GET'' ''/api/users/11'') telemetry0)))"]
  by (simp add: run_get_user_7_def run_get_user_11_def route_call get_user_result
        fastapi_response_def http_request_def str_int_examples)

section \<open>Looking a user up\<close>

text \<open>
  Claim C8. \<^verbatim>\<open>get_user\<close> with an id above 10 raises \<^verbatim>\<open>HTTPException\<close> with status
  code 404, which the caller of the service receives as a response with status 404; with
  id 5 it returns the dict with id 5, name \<^verbatim>\<open>User 5\<close> and email
  \<^verbatim>\<open>user5@example.com\<close>, which the caller receives as the body of a response with
  status 200.
\<close>

theorem get_user_status_and_body:
  "(user_id > 10 \<longrightarrow>
      fst (get_user user_id slept st) = RaiseHTTPException 404 ''User not found'' \<and>
      (\<exists>r. fst (observability_middleware extract request (route (get_user user_id slept)) st) =
             Returned r \<and> status_code r = 404)) \<and>
   fst (get_user 5 slept st) =
     Return (JObj [(''id'', JInt 5), (''name'', JStr ''User 5''),
                   (''email'', JStr ''user5@example.com'')]) \<and>
   (\<exists>r. fst (observability_middleware extract request (route (get_user 5 slept)) st) =
          Returned r \<and> status_code r = 200 \<and>
          body r = JObj [(''id'', JInt 5), (''name'', JStr ''User 5''),
                         (''email'', JStr ''user5@example.com'')])"
  by (simp add: middleware_result route_call get_user_result fastapi_response_def
        str_int_examples)

theorem get_user_status_and_body_witness:
  "(11::int) > 10 \<and>
   fst (get_user 11 (1 / 4) (telemetry0 :: unit telemetry)) =
     RaiseHTTPException 404 ''User not found'' \<and>
   fst run_get_user_11 =
     Returned \<lparr>status_code = 404, resp_headers = [(''content-type'', ''application/json'')],
               body = JObj [(''detail'', JStr ''User not found'')]\<rparr>"
  using get_user_status_and_body [of 11 "1 / 4" "telemetry0 :: unit telemetry" no_propagation
          "http_request ''GET'' ''/api/users/11''"]
  by (simp add: run_get_user_11_def middleware_result route_call get_user_result
        fastapi_response_def)

section \<open>The response passes through\<close>

text \<open>
  Claim C9. When \<open>call_next\<close> returns a response, the middleware returns that very
  response: the same status code, the same body and the same headers. No header is
  added, so the \<^verbatim>\<open>X-Trace-Id\<close> header the validator reads is there exactly when the
  downstream application put it there, and the validator captures from the middleware's
  response what it would capture from the application's.
\<close>

theorem response_passes_through:
  assumes "call_next request (snd (request_entry extract request st)) = (Returned r, st')"
  shows "\<exists>r'. fst (observability_middleware extract request call_next st) = Returned r' \<and>
              r' = r \<and>
              status_code r' = status_code r \<and> body r' = body r \<and>
              resp_headers r' = resp_headers r \<and>
              map_of (resp_headers r') ''x-trace-id'' = map_of (resp_headers r) ''x-trace-id'' \<and>
              capture_trace_id (resp_headers r') trace_id =
                capture_trace_id (resp_headers r) trace_id"
  using assms by (simp add: middleware_result)

theorem response_passes_through_witness:
  "fst run_get_user_7 =
     Returned \<lparr>status_code = 200, resp_headers = [(''content-type'', ''application/json'')],
               body = JObj [(''id'', JInt 7), (''name'', JStr ''User 7''),
                            (''email'', JStr ''user7@example.com'')]\<rparr> \<and>
   capture_trace_id [(''content-type'', ''application/json'')] None = None"
  using
    response_passes_through [of "route (get_user 7 (1 / 4))"
      "http_request ''GET'' ''/api/users/7''" no_propagation telemetry0
      "fastapi_response (fst (get_user 7 (1 / 4)
         (snd (request_entry no_propagation (http_request ''GET'' ''/api/users/7'') telemetry0))))"
      "snd (get_user 7 (1 / 4)
         (snd (request_entry no_propagation (http_request ''GET'' ''/api/users/7'') telemetry0)))"
      None]
  by (simp add: run_get_user_7_def route_call get_user_result fastapi_response_def
        capture_trace_id_def str_int_examples)

section \<open>Creating a user\<close>

text \<open>
  Claim C10. For every request body (a dict), \<^verbatim>\<open>create_user\<close> returns a dict whose
  \<^verbatim>\<open>id\<close> is the constant 100, whose \<^verbatim>\<open>name\<close> and \<^verbatim>\<open>email\<close> are what
  \<^verbatim>\<open>user_data.get\<close> gives (the value under the key, \<^verbatim>\<open>None\<close> when the key is
  absent), and whose \<^verbatim>\<open>created_at\<close> is the clock after the simulated work. Two
  creations therefore never differ in their id.
\<close>

theorem create_user_payload:
  "fst (create_user user_data slept st) =
     Return (JObj [(''id'', JInt 100),
                   (''name'', dict_get user_data ''name''),
                   (''email'', dict_get user_data ''email''),
                   (''created_at'', JFloat (now st + slept))]) \<and>
   (map_of user_data ''name'' = None \<longrightarrow> dict_get user_data ''name'' = JNull) \<and>
   (map_of user_data ''email'' = None \<longrightarrow> dict_get user_data ''email'' = JNull) \<and>
   (\<forall>v. map_of user_data ''name'' = Some v \<longrightarrow> dict_get user_data ''name'' = v) \<and>
   (\<forall>v. map_of user_data ''email'' = Some v \<longrightarrow> dict_get user_data ''email'' = v) \<and>
   (\<exists>name email created_at name' email' created_at'.
      fst (create_user user_data slept st) =
        Return (JObj [(''id'', JInt 100), (''name'', name), (''email'', email),
                      (''created_at'', created_at)]) \<and>
      fst (create_user user_data' slept' (snd (create_user user_data slept st))) =
        Return (JObj [(''id'', JInt 100), (''name'', name'), (''email'', email'),
                      (''created_at'', created_at')]))"
  by (simp add: create_user_result dict_get_def)

theorem create_user_payload_witness:
  "fst (create_user [] (1 / 4) (telemetry0 :: unit telemetry)) =
     Return (JObj [(''id'', JInt 100), (''name'', JNull), (''email'', JNull),
                   (''created_at'', JFloat (1 / 4))]) \<and>
   fst (create_user [(''name'', JStr ''Test''), (''email'', JStr ''t@example.com'')] (1 / 4)
          (telemetry0 :: unit telemetry)) =
     Return (JObj [(''id'', JInt 100), (''name'', JStr ''Test''),
                   (''email'', JStr ''t@example.com''), (''created_at'', JFloat (1 / 4))])"
  using
    create_user_payload [of "[]" "1 / 4" "telemetry0 :: unit telemetry"]
    create_user_payload [of "[(''name'', JStr ''Test''), (''email'', JStr ''t@example.com'')]"
      "1 / 4" "telemetry0 :: unit telemetry"]
  by (simp add: telemetry0_def)

end
